theory Spec2Isabelle
  imports Main "HOL-Library.Word"
begin

unbundle bit_operations_syntax

section \<open>Data model\<close>

subsection \<open>Fixed-width integers (PS2Etypes.h)\<close>

text \<open>
  \<^verbatim>\<open>u8\<close>, \<open>u32\<close> and \<open>u64\<close> are words, so \<open>+\<close>, \<open>-\<close> and \<open>*\<close> wrap as the unsigned
  C arithmetic does.  A file descriptor and the media type (\<open>s32\<close>) are only stored and
  compared, never computed with: they are \<open>int\<close>.
\<close>

type_synonym u8 = "8 word"
type_synonym u32 = "32 word"
type_synonym u64 = "64 word"

subsection \<open>Structures and constants of the CD-ROM driver interface\<close>

text \<open>
  The reader includes \<^verbatim>\<open><linux/cdrom.h>\<close>, which is not part of the sources.  Only the
  fields the reader touches are kept.  \<open>track_path\<close> and \<open>nlayers\<close> are bit-fields of a
  byte; \<open>cdte_addr_lba\<close> is the \<open>lba\<close> member of the address union, a C \<open>int\<close> that the
  reader converts to \<open>u32\<close> (the same 32 bits).
\<close>

record dvd_layer =
  track_path :: u8
  nlayers :: u8
  start_sector :: u32
  end_sector :: u32
  end_sector_l0 :: u32

record cdrom_tochdr =
  cdth_trk0 :: u8
  cdth_trk1 :: u8

record cdrom_tocentry =
  cdte_track :: u8
  cdte_adr :: u8
  cdte_ctrl :: u8
  cdte_format :: u8
  cdte_addr_lba :: u32
  cdte_datamode :: u8

definition DVD_STRUCT_PHYSICAL :: u8 where
  "DVD_STRUCT_PHYSICAL = 0"

definition CDROM_LBA :: u8 where
  "CDROM_LBA = 1"

definition CD_FRAMESIZE_RAW :: nat where
  "CD_FRAMESIZE_RAW = 2352"

definition CDS_DISC_OK :: int where
  "CDS_DISC_OK = 4"

definition CDSL_CURRENT :: int where
  "CDSL_CURRENT = 2147483647"

definition O_RDONLY_NONBLOCK :: int where
  "O_RDONLY_NONBLOCK = 2048"

subsection \<open>The device layer\<close>

text \<open>
  Every call the reader makes on the operating system is recorded, in order, with its
  scalar arguments.  The record \<open>os\<close> is the device layer: one function per call, which
  gets the calls made so far and the request, and gives the reply.  So a reply may depend
  on everything that happened before (a disc may be swapped, a read may fail the second
  time).  An \<open>ioctl\<close> that returns \<open>-1\<close> is the reply \<open>None\<close>.

  \<^item> \<open>DVD_READ_STRUCT\<close> replies with the \<open>physical.layer\<close> array as the call leaves it.
  \<^item> \<open>CDROMREADTOCENTRY\<close> takes the track and the address format from the entry and
    fills in the other fields, given here as an entry whose \<open>cdte_track\<close> and
    \<open>cdte_format\<close> are not used.
  \<^item> \<open>CDROMREADRAW\<close> takes the minute, second and frame and replies with the raw frame.
  \<^item> \<open>pread\<close> gets the buffer and replies with the byte count it returns and the
    buffer as it leaves it.
  \<^item> \<open>open\<close> replies with the descriptor (\<open>-1\<close> on failure) and \<open>errno\<close>.
\<close>

datatype syscall =
  SYS_close int
| SYS_open string int
| SYS_pread int u64 u64
| IOCTL_DVD_READ_STRUCT int u8 u8
| IOCTL_CDROMREADTOCHDR int
| IOCTL_CDROMREADTOCENTRY int u8 u8
| IOCTL_CDROMREADRAW int u8 u8 u8
| IOCTL_CDROM_DRIVE_STATUS int int

record os =
  sys_open :: "syscall list \<Rightarrow> string \<Rightarrow> int \<Rightarrow> int \<times> int"
  sys_pread :: "syscall list \<Rightarrow> int \<Rightarrow> u64 \<Rightarrow> u64 \<Rightarrow> (nat \<Rightarrow> u8) \<Rightarrow> u64 \<times> (nat \<Rightarrow> u8)"
  ioctl_DVD_READ_STRUCT :: "syscall list \<Rightarrow> int \<Rightarrow> u8 \<Rightarrow> u8 \<Rightarrow> (nat \<Rightarrow> dvd_layer) option"
  ioctl_CDROMREADTOCHDR :: "syscall list \<Rightarrow> int \<Rightarrow> cdrom_tochdr option"
  ioctl_CDROMREADTOCENTRY :: "syscall list \<Rightarrow> int \<Rightarrow> u8 \<Rightarrow> u8 \<Rightarrow> cdrom_tocentry option"
  ioctl_CDROMREADRAW :: "syscall list \<Rightarrow> int \<Rightarrow> u8 \<times> u8 \<times> u8 \<Rightarrow> (nat \<Rightarrow> u8) option"
  ioctl_CDROM_DRIVE_STATUS :: "syscall list \<Rightarrow> int \<Rightarrow> int \<Rightarrow> int"

subsection \<open>The error sink\<close>

text \<open>
  Modelled from the spec: \<^verbatim>\<open>Error::SetErrno\<close> of \<^verbatim>\<open>common/Error.h\<close>, which is not
  part of the sources.  A fallible operation takes an optional sink (\<open>None\<close> is the
  null pointer); when the sink is there and the operation fails at the open step, the sink
  receives the OS error code.
\<close>

datatype Error = Error_unset | Error_errno int

definition SetErrno :: "Error option \<Rightarrow> int \<Rightarrow> Error option" where
  "SetErrno errptr err = (case errptr of None \<Rightarrow> None | Some e \<Rightarrow> Some (Error_errno err))"

subsection \<open>The session\<close>

record toc_entry =
  lba :: u32
  track :: u8
  adr :: u8
  control :: u8

record IOCtlSrc =
  m_filename :: string
  m_device :: int
  m_sectors :: u32
  m_layer_break :: u32
  m_media_type :: int
  m_toc :: "toc_entry list"

text \<open>A session together with the calls made on the device layer so far.\<close>

type_synonym world = "IOCtlSrc \<times> syscall list"

section \<open>Operations\<close>

definition SetSpindleSpeed :: "bool \<Rightarrow> IOCtlSrc \<Rightarrow> IOCtlSrc" where
  "SetSpindleSpeed restore_defaults s = s"

definition GetSectorCount :: "IOCtlSrc \<Rightarrow> u32" where
  "GetSectorCount s = m_sectors s"

definition GetLayerBreakAddress :: "IOCtlSrc \<Rightarrow> u32" where
  "GetLayerBreakAddress s = m_layer_break s"

definition GetMediaType :: "IOCtlSrc \<Rightarrow> int" where
  "GetMediaType s = m_media_type s"

definition ReadTOC :: "IOCtlSrc \<Rightarrow> toc_entry list" where
  "ReadTOC s = m_toc s"

subsection \<open>DVD probe\<close>

definition ReadDVDInfo :: "os \<Rightarrow> world \<Rightarrow> bool \<times> world" where
  "ReadDVDInfo os w =
    (case w of (s, log) \<Rightarrow>
      (let log1 = log @ [IOCTL_DVD_READ_STRUCT (m_device s) DVD_STRUCT_PHYSICAL 0] in
       case ioctl_DVD_READ_STRUCT os log (m_device s) DVD_STRUCT_PHYSICAL 0 of
        None \<Rightarrow> (False, (s, log1))
      | Some layer \<Rightarrow>
          let start_sec = start_sector (layer 0);
              end_sec = end_sector (layer 0)
          in
            if nlayers (layer 0) = 0 then
              (True, (s\<lparr>m_media_type := 0,
                        m_layer_break := 0,
                        m_sectors := end_sec - start_sec + 1\<rparr>, log1))
            else if track_path (layer 0) = 0 then
              (let log2 = log1 @ [IOCTL_DVD_READ_STRUCT (m_device s) DVD_STRUCT_PHYSICAL 1] in
               case ioctl_DVD_READ_STRUCT os log1 (m_device s) DVD_STRUCT_PHYSICAL 1 of
                 None \<Rightarrow> (False, (s, log2))
               | Some layer' \<Rightarrow>
                   let layer1_start_sec = start_sector (layer' 1);
                       layer1_end_sec = end_sector (layer' 1)
                   in
                     (True, (s\<lparr>m_media_type := 1,
                               m_layer_break := end_sec - start_sec,
                               m_sectors := end_sec - start_sec + 1
                                            + layer1_end_sec - layer1_start_sec + 1\<rparr>, log2)))
            else
              (let end_sec_layer0 = end_sector_l0 (layer 0) in
                 (True, (s\<lparr>m_media_type := 2,
                           m_layer_break := end_sec_layer0 - start_sec,
                           m_sectors := end_sec_layer0 - start_sec + 1 + end_sec
                                        - (NOT end_sec_layer0 AND 0xFFFFFF) + 1\<rparr>, log1)))))"


subsection \<open>CD probe\<close>

text \<open>
  \<open>tocentry_zero\<close> is the value-initialised \<^verbatim>\<open>cdrom_tocentry entry{}\<close>;
  \<open>fill_tocentry\<close> stores a reply of \<open>CDROMREADTOCENTRY\<close> into the entry.
\<close>

definition tocentry_zero :: cdrom_tocentry where
  "tocentry_zero = \<lparr>cdte_track = 0, cdte_adr = 0, cdte_ctrl = 0, cdte_format = 0,
                    cdte_addr_lba = 0, cdte_datamode = 0\<rparr>"

definition fill_tocentry :: "cdrom_tocentry \<Rightarrow> cdrom_tocentry \<Rightarrow> cdrom_tocentry" where
  "fill_tocentry entry reply =
     entry\<lparr>cdte_adr := cdte_adr reply, cdte_ctrl := cdte_ctrl reply,
           cdte_addr_lba := cdte_addr_lba reply, cdte_datamode := cdte_datamode reply\<rparr>"

text \<open>The body of the loop over the tracks, for the track number \<open>n\<close>.\<close>

definition ReadCDInfo_body :: "os \<Rightarrow> u8 \<Rightarrow> cdrom_tocentry \<times> world \<Rightarrow> cdrom_tocentry \<times> world" where
  "ReadCDInfo_body os n st =
    (case st of (entry, s, log) \<Rightarrow>
      (let entry1 = entry\<lparr>cdte_track := n\<rparr>;
          log1 = log @ [IOCTL_CDROMREADTOCENTRY (m_device s) (cdte_track entry1)
                          (cdte_format entry1)]
      in
        case ioctl_CDROMREADTOCENTRY os log (m_device s) (cdte_track entry1)
               (cdte_format entry1) of
          None \<Rightarrow> (entry1, s, log1)
        | Some reply \<Rightarrow>
            let entry2 = fill_tocentry entry1 reply in
              (entry2,
               s\<lparr>m_toc := m_toc s @ [\<lparr>lba = cdte_addr_lba entry2, track = cdte_track entry2,
                                       adr = cdte_adr entry2, control = cdte_ctrl entry2\<rparr>]\<rparr>,
               log1)))"

text \<open>
  \<^verbatim>\<open>for (u8 n = header.cdth_trk0; n <= header.cdth_trk1; ++n)\<close>: the counter is a
  byte, so \<open>n + 1\<close> wraps from 255 to 0.  The loop need not end; \<open>None\<close> is the loop
  that does not return.
\<close>

partial_function (option) ReadCDInfo_loop ::
  "os \<Rightarrow> u8 \<Rightarrow> u8 \<Rightarrow> cdrom_tocentry \<times> world \<Rightarrow> (cdrom_tocentry \<times> world) option" where
  "ReadCDInfo_loop os trk1 n st =
     (if n \<le> trk1 then ReadCDInfo_loop os trk1 (n + 1) (ReadCDInfo_body os n st)
      else Some st)"

definition ReadCDInfo :: "os \<Rightarrow> world \<Rightarrow> (bool \<times> world) option" where
  "ReadCDInfo os w =
    (case w of (s, log) \<Rightarrow>
      (let log1 = log @ [IOCTL_CDROMREADTOCHDR (m_device s)] in
       case ioctl_CDROMREADTOCHDR os log (m_device s) of
        None \<Rightarrow> Some (False, (s, log1))
      | Some header \<Rightarrow>
          let entry = tocentry_zero\<lparr>cdte_format := CDROM_LBA\<rparr>;
              s1 = s\<lparr>m_toc := []\<rparr>
          in
            (case ReadCDInfo_loop os (cdth_trk1 header) (cdth_trk0 header) (entry, s1, log1) of
               None \<Rightarrow> None
             | Some (entry2, s2, log2) \<Rightarrow>
                 (let entry3 = entry2\<lparr>cdte_track := 0xAA\<rparr>;
                      log3 = log2 @ [IOCTL_CDROMREADTOCENTRY (m_device s2) (cdte_track entry3)
                                       (cdte_format entry3)]
                  in
                    (case ioctl_CDROMREADTOCENTRY os log2 (m_device s2) (cdte_track entry3)
                            (cdte_format entry3) of
                       None \<Rightarrow> Some (False, (s2, log3))
                     | Some reply \<Rightarrow>
                         (let entry4 = fill_tocentry entry3 reply in
                            Some (True, (s2\<lparr>m_sectors := cdte_addr_lba entry4,
                                             m_media_type := - 1\<rparr>, log3))))))))"

subsection \<open>Reopen and DiscReady\<close>

definition Reopen :: "os \<Rightarrow> Error option \<Rightarrow> world \<Rightarrow> (bool \<times> Error option \<times> world) option" where
  "Reopen os error w =
    (case w of (s, log) \<Rightarrow>
      let log1 = (if m_device s \<noteq> - 1 then log @ [SYS_close (m_device s)] else log);
          opened = sys_open os log1 (m_filename s) O_RDONLY_NONBLOCK;
          log2 = log1 @ [SYS_open (m_filename s) O_RDONLY_NONBLOCK];
          s1 = s\<lparr>m_device := fst opened\<rparr>
      in
        if m_device s1 = - 1 then Some (False, SetErrno error (snd opened), (s1, log2))
        else
          (case ReadDVDInfo os (s1, log2) of (dvd_ok, s2, log3) \<Rightarrow>
             if dvd_ok then Some (True, error, (SetSpindleSpeed False s2, log3))
             else
               (case ReadCDInfo os (s2, log3) of
                  None \<Rightarrow> None
                | Some (cd_ok, s3, log4) \<Rightarrow>
                    if cd_ok then Some (True, error, (SetSpindleSpeed False s3, log4))
                    else Some (True, error, (s3, log4)))))"

definition DiscReady :: "os \<Rightarrow> world \<Rightarrow> (bool \<times> world) option" where
  "DiscReady os w =
    (case w of (s, log) \<Rightarrow>
      if m_device s = - 1 then Some (False, (s, log))
      else
        let log1 = log @ [IOCTL_CDROM_DRIVE_STATUS (m_device s) CDSL_CURRENT] in
        if ioctl_CDROM_DRIVE_STATUS os log (m_device s) CDSL_CURRENT = CDS_DISC_OK then
          (if m_sectors s = 0 then
             (case Reopen os None (s, log1) of
                None \<Rightarrow> None
              | Some (r, e, (s2, log2)) \<Rightarrow> Some (m_sectors s2 \<noteq> 0, (s2, log2)))
           else Some (m_sectors s \<noteq> 0, (s, log1)))
        else
          (let s1 = s\<lparr>m_sectors := 0, m_layer_break := 0, m_media_type := 0\<rparr> in
             Some (m_sectors s1 \<noteq> 0, (s1, log1))))"

subsection \<open>Sector reads\<close>

text \<open>
  The caller's buffer is the memory from the pointer on, a function from the byte offset.
  \<^verbatim>\<open>2048 * count\<close> is a product of \<open>int\<close> and \<open>u32\<close>, so it is computed in 32 bits
  and then widened to \<open>ssize_t\<close> (64 bits on the 64-bit Linux the reader is built for);
  \<^verbatim>\<open>sector * 2048ULL\<close> is computed in 64 bits.  The two messages written to \<open>stderr\<close> on
  failure are left out.
\<close>

definition ReadSectors2048 ::
  "os \<Rightarrow> world \<Rightarrow> u32 \<Rightarrow> u32 \<Rightarrow> (nat \<Rightarrow> u8) \<Rightarrow> bool \<times> (nat \<Rightarrow> u8) \<times> syscall list" where
  "ReadSectors2048 os w sector count buffer =
    (case w of (s, log) \<Rightarrow>
      let bytes_to_read = (ucast (2048 * count :: u32) :: u64);
          offset = (ucast sector * 2048 :: u64);
          reply = sys_pread os log (m_device s) bytes_to_read offset buffer;
          bytes_read = fst reply;
          log1 = log @ [SYS_pread (m_device s) bytes_to_read offset]
      in
        if bytes_read = bytes_to_read then (True, snd reply, log1)
        else (False, snd reply, log1))"

text \<open>
  \<open>memcpy_frame mem pos data\<close> is \<^verbatim>\<open>memcpy(buffer, data.buffer, CD_FRAMESIZE_RAW)\<close>
  with the pointer \<open>buffer\<close> at the offset \<open>pos\<close>.
\<close>

definition memcpy_frame :: "(nat \<Rightarrow> u8) \<Rightarrow> nat \<Rightarrow> (nat \<Rightarrow> u8) \<Rightarrow> (nat \<Rightarrow> u8)" where
  "memcpy_frame mem pos data =
     (\<lambda>i. if pos \<le> i \<and> i < pos + CD_FRAMESIZE_RAW then data (i - pos) else mem i)"

text \<open>
  \<^verbatim>\<open>lba_to_msf\<close> (of \<^verbatim>\<open>CDVD/CDVD.h\<close>, not part of the sources) is a parameter: it
  gives the minute, second and frame of a block address.  The loop state is the memory, the
  offset of the moving pointer \<open>buffer\<close> and the calls made.
\<close>

function ReadSectors2352_loop ::
  "os \<Rightarrow> (u32 \<Rightarrow> u8 \<times> u8 \<times> u8) \<Rightarrow> int \<Rightarrow> u32 \<Rightarrow> u32 \<Rightarrow> u32
     \<Rightarrow> (nat \<Rightarrow> u8) \<times> nat \<times> syscall list \<Rightarrow> bool \<times> (nat \<Rightarrow> u8) \<times> syscall list" where
  "ReadSectors2352_loop os lba_to_msf fd sector count n st =
     (if n < count then
        (case st of (mem, buffer, log) \<Rightarrow>
           (case lba_to_msf (sector + n) of (m, sc, f) \<Rightarrow>
              (case ioctl_CDROMREADRAW os log fd (m, sc, f) of
                 None \<Rightarrow> (False, mem, log @ [IOCTL_CDROMREADRAW fd m sc f])
               | Some data \<Rightarrow>
                   ReadSectors2352_loop os lba_to_msf fd sector count (n + 1)
                     (memcpy_frame mem buffer data, buffer + CD_FRAMESIZE_RAW,
                      log @ [IOCTL_CDROMREADRAW fd m sc f]))))
      else (True, fst st, snd (snd st)))"
  by pat_completeness auto
termination
proof (relation "measure (\<lambda>(os, lba_to_msf, fd, sector, count, n, st). unat count - unat n)")
  show "wf (measure (\<lambda>(os, lba_to_msf, fd, sector, count, n, st). unat count - unat n))"
    by simp
next
  fix os :: os and lba_to_msf :: "u32 \<Rightarrow> u8 \<times> u8 \<times> u8" and fd :: int
    and sector count n :: u32 and st :: "(nat \<Rightarrow> u8) \<times> nat \<times> syscall list"
    and x1 x2 x1a x2a
  assume lt: "n < count"
  then have "unat (n + 1) = Suc (unat n)"
    by (metis add.commute max_word_wrap unatSuc word_order.extremum_strict)
  moreover from lt have "unat n < unat count"
    by (simp add: word_less_nat_alt)
  ultimately show "((os, lba_to_msf, fd, sector, count, n + 1, x1, x2, x1a), os, lba_to_msf, fd, sector, count, n, st)
        \<in> measure (\<lambda>(os, lba_to_msf, fd, sector, count, n, st). unat count - unat n)"
    by simp
qed

declare ReadSectors2352_loop.simps [simp del]

definition ReadSectors2352 ::
  "os \<Rightarrow> (u32 \<Rightarrow> u8 \<times> u8 \<times> u8) \<Rightarrow> world \<Rightarrow> u32 \<Rightarrow> u32 \<Rightarrow> (nat \<Rightarrow> u8)
     \<Rightarrow> bool \<times> (nat \<Rightarrow> u8) \<times> syscall list" where
  "ReadSectors2352 os lba_to_msf w sector count buffer =
    (case w of (s, log) \<Rightarrow>
       ReadSectors2352_loop os lba_to_msf (m_device s) sector count 0 (buffer, 0, log))"

section \<open>Vocabulary of the statements\<close>

text \<open>
  The calls of \<open>Reopen\<close> up to and including \<^verbatim>\<open>open\<close>: \<open>close_log\<close> is the log once
  an open descriptor has been closed, \<open>open_reply\<close> the descriptor and \<open>errno\<close> that
  \<^verbatim>\<open>open\<close> then gives, \<open>after_open\<close> the session and the log right after it.
\<close>

definition close_log :: "world \<Rightarrow> syscall list" where
  "close_log w =
     (case w of (s, log) \<Rightarrow> if m_device s \<noteq> - 1 then log @ [SYS_close (m_device s)] else log)"

definition open_reply :: "os \<Rightarrow> world \<Rightarrow> int \<times> int" where
  "open_reply os w = sys_open os (close_log w) (m_filename (fst w)) O_RDONLY_NONBLOCK"

definition after_open :: "os \<Rightarrow> world \<Rightarrow> world" where
  "after_open os w =
     ((fst w)\<lparr>m_device := fst (open_reply os w)\<rparr>,
      close_log w @ [SYS_open (m_filename (fst w)) O_RDONLY_NONBLOCK])"

text \<open>
  The raw reads of \<open>ReadSectors2352\<close>, counted from 0: \<open>raw_event\<close> is the call for the
  \<open>j\<close>-th sector (block address \<open>sector + j\<close> in \<open>u32\<close>), \<open>raw_log\<close> the log once the
  first \<open>j\<close> sectors have been asked for, \<open>raw_reply\<close> the reply to the \<open>j\<close>-th call
  when the \<open>j\<close> calls before it have been made, and \<open>frames_written\<close> the buffer with
  the frames of the first \<open>k\<close> sectors in it, frame \<open>n\<close> at the offset \<open>n * 2352\<close>.
\<close>

definition raw_event :: "(u32 \<Rightarrow> u8 \<times> u8 \<times> u8) \<Rightarrow> int \<Rightarrow> u32 \<Rightarrow> nat \<Rightarrow> syscall" where
  "raw_event lba_to_msf fd sector j =
     (case lba_to_msf (sector + of_nat j) of (m, sc, f) \<Rightarrow> IOCTL_CDROMREADRAW fd m sc f)"

definition raw_log ::
  "(u32 \<Rightarrow> u8 \<times> u8 \<times> u8) \<Rightarrow> int \<Rightarrow> u32 \<Rightarrow> syscall list \<Rightarrow> nat \<Rightarrow> syscall list" where
  "raw_log lba_to_msf fd sector log j = log @ map (raw_event lba_to_msf fd sector) [0..<j]"

definition raw_reply ::
  "os \<Rightarrow> (u32 \<Rightarrow> u8 \<times> u8 \<times> u8) \<Rightarrow> int \<Rightarrow> u32 \<Rightarrow> syscall list \<Rightarrow> nat
     \<Rightarrow> (nat \<Rightarrow> u8) option" where
  "raw_reply os lba_to_msf fd sector log j =
     ioctl_CDROMREADRAW os (raw_log lba_to_msf fd sector log j) fd
       (lba_to_msf (sector + of_nat j))"

definition frames_written ::
  "os \<Rightarrow> (u32 \<Rightarrow> u8 \<times> u8 \<times> u8) \<Rightarrow> int \<Rightarrow> u32 \<Rightarrow> syscall list \<Rightarrow> (nat \<Rightarrow> u8) \<Rightarrow> nat
     \<Rightarrow> (nat \<Rightarrow> u8)" where
  "frames_written os lba_to_msf fd sector log buffer k =
     (\<lambda>i. if i < k * CD_FRAMESIZE_RAW
          then (case raw_reply os lba_to_msf fd sector log (i div CD_FRAMESIZE_RAW) of
                  None \<Rightarrow> buffer i
                | Some data \<Rightarrow> data (i mod CD_FRAMESIZE_RAW))
          else buffer i)"

text \<open>
  The entry reads of the CD probe, by track number: \<open>toc_event\<close> is the call for the
  track \<open>k\<close> in LBA format, \<open>toc_log\<close> the log once the tracks from \<open>first\<close> up to
  \<open>j\<close> (excluded) have been asked for, \<open>toc_reply\<close> the reply to the call for the
  track \<open>j\<close> at that point, and \<open>toc_built\<close> the TOC made of the replies to the tracks
  from \<open>first\<close> up to \<open>j\<close> (excluded), failed reads left out.
\<close>

definition toc_event :: "int \<Rightarrow> nat \<Rightarrow> syscall" where
  "toc_event fd k = IOCTL_CDROMREADTOCENTRY fd (of_nat k) CDROM_LBA"

definition toc_log :: "int \<Rightarrow> syscall list \<Rightarrow> nat \<Rightarrow> nat \<Rightarrow> syscall list" where
  "toc_log fd log first j = log @ map (toc_event fd) [first..<j]"

definition toc_reply :: "os \<Rightarrow> int \<Rightarrow> syscall list \<Rightarrow> nat \<Rightarrow> nat \<Rightarrow> cdrom_tocentry option" where
  "toc_reply os fd log first j =
     ioctl_CDROMREADTOCENTRY os (toc_log fd log first j) fd (of_nat j) CDROM_LBA"

definition toc_built :: "os \<Rightarrow> int \<Rightarrow> syscall list \<Rightarrow> nat \<Rightarrow> nat \<Rightarrow> toc_entry list" where
  "toc_built os fd log first j =
     concat (map (\<lambda>k. case toc_reply os fd log first k of
                         None \<Rightarrow> []
                       | Some reply \<Rightarrow> [\<lparr>lba = cdte_addr_lba reply, track = of_nat k,
                                         adr = cdte_adr reply, control = cdte_ctrl reply\<rparr>])
                 [first..<j])"

section \<open>Sample devices and sessions\<close>

text \<open>Concrete devices and sessions, on which the theorems below are evaluated.\<close>

definition session0 :: IOCtlSrc where
  "session0 = \<lparr>m_filename = ''/dev/sr0'', m_device = 3, m_sectors = 0,
               m_layer_break = 0, m_media_type = 0, m_toc = []\<rparr>"

definition no_device :: os where
  "no_device = \<lparr>sys_open = (\<lambda>log path flags. (- 1, 2)),
                sys_pread = (\<lambda>log fd n off buf. (- 1, buf)),
                ioctl_DVD_READ_STRUCT = (\<lambda>log fd ty num. None),
                ioctl_CDROMREADTOCHDR = (\<lambda>log fd. None),
                ioctl_CDROMREADTOCENTRY = (\<lambda>log fd trk fmt. None),
                ioctl_CDROMREADRAW = (\<lambda>log fd msf. None),
                ioctl_CDROM_DRIVE_STATUS = (\<lambda>log fd slot. 1)\<rparr>"

definition layer_single :: dvd_layer where
  "layer_single = \<lparr>track_path = 0, nlayers = 0, start_sector = 0x30000,
                   end_sector = 0x26127F, end_sector_l0 = 0\<rparr>"

definition dvd_single :: os where
  "dvd_single = no_device\<lparr>sys_open := (\<lambda>log path flags. (3, 0)),
                           ioctl_DVD_READ_STRUCT := (\<lambda>log fd ty num. Some (\<lambda>i. layer_single)),
                           ioctl_CDROM_DRIVE_STATUS := (\<lambda>log fd slot. 4)\<rparr>"

definition layers_parallel :: "nat \<Rightarrow> dvd_layer" where
  "layers_parallel i =
     (if i = 0 then \<lparr>track_path = 0, nlayers = 1, start_sector = 0x30000,
                      end_sector = 0x22FFFF, end_sector_l0 = 0\<rparr>
      else \<lparr>track_path = 0, nlayers = 1, start_sector = 0x30000,
             end_sector = 0x1FFFFF, end_sector_l0 = 0\<rparr>)"

definition dvd_parallel :: os where
  "dvd_parallel = no_device\<lparr>sys_open := (\<lambda>log path flags. (3, 0)),
                             ioctl_DVD_READ_STRUCT := (\<lambda>log fd ty num. Some layers_parallel)\<rparr>"

definition dvd_parallel_broken :: os where
  "dvd_parallel_broken =
     no_device\<lparr>sys_open := (\<lambda>log path flags. (3, 0)),
               ioctl_DVD_READ_STRUCT :=
                 (\<lambda>log fd ty num. if num = 0 then Some layers_parallel else None)\<rparr>"

definition layer_opposite :: dvd_layer where
  "layer_opposite = \<lparr>track_path = 1, nlayers = 1, start_sector = 0x30000,
                     end_sector = 0xFA3FFF, end_sector_l0 = 0x20B3FF\<rparr>"

definition dvd_opposite :: os where
  "dvd_opposite = no_device\<lparr>sys_open := (\<lambda>log path flags. (3, 0)),
                             ioctl_DVD_READ_STRUCT := (\<lambda>log fd ty num. Some (\<lambda>i. layer_opposite))\<rparr>"

definition session_new :: IOCtlSrc where
  "session_new = \<lparr>m_filename = ''/dev/sr0'', m_device = - 1, m_sectors = 0,
                  m_layer_break = 0, m_media_type = 0, m_toc = []\<rparr>"

definition session_dvd :: IOCtlSrc where
  "session_dvd = \<lparr>m_filename = ''/dev/sr0'', m_device = 3, m_sectors = 0x231280,
                  m_layer_break = 0x1000, m_media_type = 1, m_toc = []\<rparr>"

definition session_cd :: IOCtlSrc where
  "session_cd = \<lparr>m_filename = ''/dev/sr0'', m_device = 3, m_sectors = 0x3000,
                 m_layer_break = 0, m_media_type = - 1,
                 m_toc = [\<lparr>lba = 0, track = 1, adr = 1, control = 4\<rparr>]\<rparr>"

text \<open>
  A CD with the tracks 1 to 3, of which track 2 cannot be read, and a CD whose header
  gives 255 as the last track.
\<close>

definition cd_reply :: "u8 \<Rightarrow> cdrom_tocentry" where
  "cd_reply trk = \<lparr>cdte_track = 0, cdte_adr = 1, cdte_ctrl = 4, cdte_format = 0,
                   cdte_addr_lba = (if trk = 0xAA then 0x3000 else ucast trk * 0x1000),
                   cdte_datamode = 0\<rparr>"

definition cd_three :: os where
  "cd_three = no_device\<lparr>sys_open := (\<lambda>log path flags. (3, 0)),
                         ioctl_CDROMREADTOCHDR :=
                           (\<lambda>log fd. Some \<lparr>cdth_trk0 = 1, cdth_trk1 = 3\<rparr>),
                         ioctl_CDROMREADTOCENTRY :=
                           (\<lambda>log fd trk fmt. if trk = 2 then None else Some (cd_reply trk)),
                         ioctl_CDROM_DRIVE_STATUS := (\<lambda>log fd slot. 4)\<rparr>"

definition cd_255 :: os where
  "cd_255 = no_device\<lparr>sys_open := (\<lambda>log path flags. (3, 0)),
                       ioctl_CDROMREADTOCHDR :=
                         (\<lambda>log fd. Some \<lparr>cdth_trk0 = 1, cdth_trk1 = 255\<rparr>),
                       ioctl_CDROMREADTOCENTRY := (\<lambda>log fd trk fmt. Some (cd_reply trk)),
                       ioctl_CDROM_DRIVE_STATUS := (\<lambda>log fd slot. 4)\<rparr>"

text \<open>
  A device whose \<^verbatim>\<open>pread\<close> transfers as many bytes as it is asked for, and one whose
  raw read fails at minute 0, second 2, frame 18.  \<open>msf_of_lba\<close> is the usual conversion
  (150 frames of lead-in, 75 frames a second), a sample for the parameter \<open>lba_to_msf\<close>.
\<close>

definition disc_image :: os where
  "disc_image = no_device\<lparr>sys_open := (\<lambda>log path flags. (3, 0)),
                           sys_pread := (\<lambda>log fd n off buf. (n, buf))\<rparr>"

definition msf_of_lba :: "u32 \<Rightarrow> u8 \<times> u8 \<times> u8" where
  "msf_of_lba addr =
     (let l = sint addr + 150
      in (word_of_int (l div 4500), word_of_int ((l div 75) mod 60), word_of_int (l mod 75)))"

definition cd_raw :: os where
  "cd_raw = no_device\<lparr>sys_open := (\<lambda>log path flags. (3, 0)),
                       ioctl_CDROMREADRAW :=
                         (\<lambda>log fd msf. if msf = (0, 2, 18) then None else Some (\<lambda>i. 0x11))\<rparr>"

section \<open>The two outcomes of open in Reopen\<close>

lemma Reopen_open_failed:
  assumes "fst (open_reply os w) = - 1"
  shows "Reopen os error w
           = Some (False, SetErrno error (snd (open_reply os w)), after_open os w)"
  using assms
  by (cases w) (simp add: Reopen_def Let_def after_open_def open_reply_def close_log_def)

text \<open>
  Once the handle is open, \<open>Reopen\<close> runs the DVD probe on the state right after
  \<^verbatim>\<open>open\<close>; the CD probe runs exactly when the DVD probe has returned false, on the state
  the DVD probe left; and whatever the probes return, \<open>Reopen\<close> returns true.  It returns
  whenever the CD probe it runs does.
\<close>

lemma Reopen_opened:
  assumes "fst (open_reply os w) \<noteq> - 1"
  shows "Reopen os error w =
           (case ReadDVDInfo os (after_open os w) of (dvd_ok, w2) \<Rightarrow>
              if dvd_ok then Some (True, error, w2)
              else (case ReadCDInfo os w2 of
                      None \<Rightarrow> None
                    | Some (cd_ok, w3) \<Rightarrow> Some (True, error, w3)))"
  using assms
  by (cases w)
    (simp add: Reopen_def Let_def after_open_def open_reply_def close_log_def
      SetSpindleSpeed_def split: prod.split option.split)

section \<open>The DVD probe\<close>

text \<open>
  C9.  A DVD probe whose layer-0 request succeeds and reports \<open>nlayers = 0\<close> succeeds
  and sets the media type to 0, the layer break to 0 and the sector count to
  \<open>end - start + 1\<close> (in \<open>u32\<close> arithmetic), with one request made and nothing else of
  the session changed.
\<close>

theorem ReadDVDInfo_single_layer:
  assumes "ioctl_DVD_READ_STRUCT os log (m_device s) DVD_STRUCT_PHYSICAL 0 = Some layer"
    and "nlayers (layer 0) = 0"
  shows "ReadDVDInfo os (s, log) =
           (True, (s\<lparr>m_media_type := 0, m_layer_break := 0,
                     m_sectors := end_sector (layer 0) - start_sector (layer 0) + 1\<rparr>,
                   log @ [IOCTL_DVD_READ_STRUCT (m_device s) DVD_STRUCT_PHYSICAL 0]))
       \<and> GetMediaType (fst (snd (ReadDVDInfo os (s, log)))) = 0
       \<and> GetLayerBreakAddress (fst (snd (ReadDVDInfo os (s, log)))) = 0
       \<and> GetSectorCount (fst (snd (ReadDVDInfo os (s, log))))
           = end_sector (layer 0) - start_sector (layer 0) + 1"
  using assms
  by (simp add: ReadDVDInfo_def Let_def GetMediaType_def GetLayerBreakAddress_def
      GetSectorCount_def)

theorem ReadDVDInfo_single_layer_witness:
  "ioctl_DVD_READ_STRUCT dvd_single [] (m_device session0) DVD_STRUCT_PHYSICAL 0
     = Some (\<lambda>i. layer_single)
   \<and> nlayers layer_single = 0
   \<and> ReadDVDInfo dvd_single (session0, []) =
       (True, (session0\<lparr>m_media_type := 0, m_layer_break := 0, m_sectors := 0x231280\<rparr>,
               [IOCTL_DVD_READ_STRUCT 3 0 0]))"
  using ReadDVDInfo_single_layer [of dvd_single "[]" session0 "\<lambda>i. layer_single"]
  by (simp add: dvd_single_def no_device_def layer_single_def session0_def
      DVD_STRUCT_PHYSICAL_def)

text \<open>
  C2.  A DVD probe whose layer-0 request succeeds and reports \<open>nlayers \<noteq> 0\<close> and the
  parallel track path (\<open>track_path = 0\<close>) asks again, for layer 1.  If that request
  fails, the probe returns false and leaves the session as it was, and a \<open>Reopen\<close> that
  has run this probe after its \<^verbatim>\<open>open\<close> goes on with the CD probe.  If it succeeds, the
  probe returns true, and with the layer-0 extent \<open>[s0, e0]\<close> and the layer-1 extent
  \<open>[s1, e1]\<close> it sets the media type to 1, the layer break to \<open>e0 - s0\<close> and the
  sector count to \<open>(e0 - s0 + 1) + (e1 - s1 + 1)\<close>, in \<open>u32\<close> arithmetic.
\<close>

theorem ReadDVDInfo_parallel:
  assumes "ioctl_DVD_READ_STRUCT os log (m_device s) DVD_STRUCT_PHYSICAL 0 = Some layer"
    and "nlayers (layer 0) \<noteq> 0"
    and "track_path (layer 0) = 0"
  shows "case ioctl_DVD_READ_STRUCT os
                (log @ [IOCTL_DVD_READ_STRUCT (m_device s) DVD_STRUCT_PHYSICAL 0])
                (m_device s) DVD_STRUCT_PHYSICAL 1 of
           None \<Rightarrow>
             ReadDVDInfo os (s, log) =
               (False, (s, log @ [IOCTL_DVD_READ_STRUCT (m_device s) DVD_STRUCT_PHYSICAL 0,
                                  IOCTL_DVD_READ_STRUCT (m_device s) DVD_STRUCT_PHYSICAL 1]))
             \<and> (\<forall>w0 error. fst (open_reply os w0) \<noteq> - 1 \<and> after_open os w0 = (s, log) \<longrightarrow>
                    Reopen os error w0 =
                      (case ReadCDInfo os
                              (s, log @ [IOCTL_DVD_READ_STRUCT (m_device s) DVD_STRUCT_PHYSICAL 0,
                                         IOCTL_DVD_READ_STRUCT (m_device s) DVD_STRUCT_PHYSICAL 1]) of
                         None \<Rightarrow> None
                       | Some (cd_ok, w3) \<Rightarrow> Some (True, error, w3)))
         | Some layer' \<Rightarrow>
             ReadDVDInfo os (s, log) =
               (True,
                (s\<lparr>m_media_type := 1,
                   m_layer_break := end_sector (layer 0) - start_sector (layer 0),
                   m_sectors := (end_sector (layer 0) - start_sector (layer 0) + 1)
                              + (end_sector (layer' 1) - start_sector (layer' 1) + 1)\<rparr>,
                 log @ [IOCTL_DVD_READ_STRUCT (m_device s) DVD_STRUCT_PHYSICAL 0,
                        IOCTL_DVD_READ_STRUCT (m_device s) DVD_STRUCT_PHYSICAL 1]))
             \<and> GetMediaType (fst (snd (ReadDVDInfo os (s, log)))) = 1
             \<and> GetLayerBreakAddress (fst (snd (ReadDVDInfo os (s, log))))
                 = end_sector (layer 0) - start_sector (layer 0)
             \<and> GetSectorCount (fst (snd (ReadDVDInfo os (s, log))))
                 = (end_sector (layer 0) - start_sector (layer 0) + 1)
                   + (end_sector (layer' 1) - start_sector (layer' 1) + 1)"
proof (cases "ioctl_DVD_READ_STRUCT os
                (log @ [IOCTL_DVD_READ_STRUCT (m_device s) DVD_STRUCT_PHYSICAL 0])
                (m_device s) DVD_STRUCT_PHYSICAL 1")
  case None
  with assms have probe: "ReadDVDInfo os (s, log) =
               (False, (s, log @ [IOCTL_DVD_READ_STRUCT (m_device s) DVD_STRUCT_PHYSICAL 0,
                                  IOCTL_DVD_READ_STRUCT (m_device s) DVD_STRUCT_PHYSICAL 1]))"
    by (simp add: ReadDVDInfo_def Let_def)
  then have "\<forall>w0 error. fst (open_reply os w0) \<noteq> - 1 \<and> after_open os w0 = (s, log) \<longrightarrow>
                    Reopen os error w0 =
                      (case ReadCDInfo os
                              (s, log @ [IOCTL_DVD_READ_STRUCT (m_device s) DVD_STRUCT_PHYSICAL 0,
                                         IOCTL_DVD_READ_STRUCT (m_device s) DVD_STRUCT_PHYSICAL 1]) of
                         None \<Rightarrow> None
                       | Some (cd_ok, w3) \<Rightarrow> Some (True, error, w3))"
    by (simp add: Reopen_opened)
  with None probe show ?thesis
    by simp
next
  case (Some layer')
  with assms show ?thesis
    by (simp add: ReadDVDInfo_def Let_def GetMediaType_def GetLayerBreakAddress_def
        GetSectorCount_def)
qed

theorem ReadDVDInfo_parallel_witness:
  "ReadDVDInfo dvd_parallel (session0, []) =
     (True, (session0\<lparr>m_media_type := 1, m_layer_break := 0x1FFFFF, m_sectors := 0x3D0000\<rparr>,
             [IOCTL_DVD_READ_STRUCT 3 0 0, IOCTL_DVD_READ_STRUCT 3 0 1]))
   \<and> ReadDVDInfo dvd_parallel_broken (session_new\<lparr>m_device := 3\<rparr>, [SYS_open ''/dev/sr0'' 2048]) =
       (False, (session_new\<lparr>m_device := 3\<rparr>,
                [SYS_open ''/dev/sr0'' 2048, IOCTL_DVD_READ_STRUCT 3 0 0,
                 IOCTL_DVD_READ_STRUCT 3 0 1]))
   \<and> Reopen dvd_parallel_broken None (session_new, []) =
       Some (True, None,
             (session_new\<lparr>m_device := 3\<rparr>,
              [SYS_open ''/dev/sr0'' 2048, IOCTL_DVD_READ_STRUCT 3 0 0,
               IOCTL_DVD_READ_STRUCT 3 0 1, IOCTL_CDROMREADTOCHDR 3]))"
proof -
  have ok: "ReadDVDInfo dvd_parallel (session0, []) =
     (True, (session0\<lparr>m_media_type := 1, m_layer_break := 0x1FFFFF, m_sectors := 0x3D0000\<rparr>,
             [IOCTL_DVD_READ_STRUCT 3 0 0, IOCTL_DVD_READ_STRUCT 3 0 1]))"
    using ReadDVDInfo_parallel [of dvd_parallel "[]" session0 layers_parallel]
    by (simp add: dvd_parallel_def no_device_def layers_parallel_def session0_def
        DVD_STRUCT_PHYSICAL_def)
  have ao: "fst (open_reply dvd_parallel_broken (session_new, [])) \<noteq> - 1
            \<and> after_open dvd_parallel_broken (session_new, [])
                = (session_new\<lparr>m_device := 3\<rparr>, [SYS_open ''/dev/sr0'' 2048])"
    by (simp add: after_open_def open_reply_def close_log_def dvd_parallel_broken_def
        no_device_def session_new_def O_RDONLY_NONBLOCK_def)
  have cd: "ReadCDInfo dvd_parallel_broken
              (session_new\<lparr>m_device := 3\<rparr>,
               [SYS_open ''/dev/sr0'' 2048, IOCTL_DVD_READ_STRUCT 3 0 0, IOCTL_DVD_READ_STRUCT 3 0 1])
            = Some (False, (session_new\<lparr>m_device := 3\<rparr>,
                [SYS_open ''/dev/sr0'' 2048, IOCTL_DVD_READ_STRUCT 3 0 0,
                 IOCTL_DVD_READ_STRUCT 3 0 1, IOCTL_CDROMREADTOCHDR 3]))"
    by (simp add: ReadCDInfo_def Let_def dvd_parallel_broken_def no_device_def session_new_def)
  have broken: "ReadDVDInfo dvd_parallel_broken (session_new\<lparr>m_device := 3\<rparr>, [SYS_open ''/dev/sr0'' 2048]) =
       (False, (session_new\<lparr>m_device := 3\<rparr>,
                [SYS_open ''/dev/sr0'' 2048, IOCTL_DVD_READ_STRUCT 3 0 0,
                 IOCTL_DVD_READ_STRUCT 3 0 1]))
     \<and> (\<forall>w0 error. fst (open_reply dvd_parallel_broken w0) \<noteq> - 1
            \<and> after_open dvd_parallel_broken w0
                = (session_new\<lparr>m_device := 3\<rparr>, [SYS_open ''/dev/sr0'' 2048]) \<longrightarrow>
          Reopen dvd_parallel_broken error w0 =
            (case ReadCDInfo dvd_parallel_broken
                    (session_new\<lparr>m_device := 3\<rparr>,
                     [SYS_open ''/dev/sr0'' 2048, IOCTL_DVD_READ_STRUCT 3 0 0,
                      IOCTL_DVD_READ_STRUCT 3 0 1]) of
               None \<Rightarrow> None
             | Some (cd_ok, w3) \<Rightarrow> Some (True, error, w3)))"
    using ReadDVDInfo_parallel [of dvd_parallel_broken "[SYS_open ''/dev/sr0'' 2048]"
        "session_new\<lparr>m_device := 3\<rparr>" layers_parallel]
    by (simp add: dvd_parallel_broken_def no_device_def layers_parallel_def session_new_def
        DVD_STRUCT_PHYSICAL_def)
  then have "Reopen dvd_parallel_broken None (session_new, []) =
            (case ReadCDInfo dvd_parallel_broken
                    (session_new\<lparr>m_device := 3\<rparr>,
                     [SYS_open ''/dev/sr0'' 2048, IOCTL_DVD_READ_STRUCT 3 0 0,
                      IOCTL_DVD_READ_STRUCT 3 0 1]) of
               None \<Rightarrow> None
             | Some (cd_ok, w3) \<Rightarrow> Some (True, None, w3))"
    using ao by blast
  with ok broken show ?thesis
    by (simp add: cd)
qed

text \<open>
  C1.  A DVD probe whose layer-0 request succeeds and reports \<open>nlayers \<noteq> 0\<close> and the
  opposite track path (\<open>track_path \<noteq> 0\<close>) succeeds with that one request.  With the
  start sector \<open>s0\<close>, the value \<open>L0\<close> of \<open>end_sector_l0\<close> and the value \<open>e1\<close> of
  \<open>end_sector\<close> of the layer-0 descriptor, it sets the media type to 2, the layer break
  to \<open>L0 - s0\<close> and the sector count to \<open>(L0 - s0 + 1) + (e1 - (NOT L0 AND 0xFFFFFF) + 1)\<close>,
  where \<open>NOT\<close> is the complement of the 32-bit word and the arithmetic is that of \<open>u32\<close>.
\<close>

theorem ReadDVDInfo_opposite:
  assumes "ioctl_DVD_READ_STRUCT os log (m_device s) DVD_STRUCT_PHYSICAL 0 = Some layer"
    and "nlayers (layer 0) \<noteq> 0"
    and "track_path (layer 0) \<noteq> 0"
  shows "ReadDVDInfo os (s, log) =
           (True,
            (s\<lparr>m_media_type := 2,
               m_layer_break := end_sector_l0 (layer 0) - start_sector (layer 0),
               m_sectors := (end_sector_l0 (layer 0) - start_sector (layer 0) + 1)
                          + (end_sector (layer 0)
                             - (NOT (end_sector_l0 (layer 0)) AND 0xFFFFFF) + 1)\<rparr>,
             log @ [IOCTL_DVD_READ_STRUCT (m_device s) DVD_STRUCT_PHYSICAL 0]))
       \<and> GetMediaType (fst (snd (ReadDVDInfo os (s, log)))) = 2
       \<and> GetLayerBreakAddress (fst (snd (ReadDVDInfo os (s, log))))
           = end_sector_l0 (layer 0) - start_sector (layer 0)
       \<and> GetSectorCount (fst (snd (ReadDVDInfo os (s, log))))
           = (end_sector_l0 (layer 0) - start_sector (layer 0) + 1)
             + (end_sector (layer 0) - (NOT (end_sector_l0 (layer 0)) AND 0xFFFFFF) + 1)"
  using assms
  by (simp add: ReadDVDInfo_def Let_def GetMediaType_def GetLayerBreakAddress_def
      GetSectorCount_def)

theorem ReadDVDInfo_opposite_witness:
  "ReadDVDInfo dvd_opposite (session0, []) =
     (True, (session0\<lparr>m_media_type := 2, m_layer_break := 0x1DB3FF, m_sectors := 0x38A800\<rparr>,
             [IOCTL_DVD_READ_STRUCT 3 0 0]))"
  using ReadDVDInfo_opposite [of dvd_opposite "[]" session0 "\<lambda>i. layer_opposite"]
  by (simp add: dvd_opposite_def no_device_def layer_opposite_def session0_def
      DVD_STRUCT_PHYSICAL_def)

section \<open>The CD probe\<close>

text \<open>
  The loop over the tracks returns only if the last track of the header is below 255:
  with 255 the test \<open>n \<le> 255\<close> holds for every byte \<open>n\<close>.
\<close>

lemma ReadCDInfo_loop_returns_below_255:
  assumes "ReadCDInfo_loop os trk1 n st = Some r"
  shows "trk1 \<noteq> 255"
proof (rule ReadCDInfo_loop.raw_induct [where P = "\<lambda>os trk1 n st r. trk1 \<noteq> 255", OF _ assms])
  fix loop :: "os \<Rightarrow> u8 \<Rightarrow> u8 \<Rightarrow> cdrom_tocentry \<times> world \<Rightarrow> (cdrom_tocentry \<times> world) option"
    and os trk1 n st r
  assume IH: "\<And>os trk1 n st r. loop os trk1 n st = Some r \<Longrightarrow> trk1 \<noteq> 255"
    and step: "(if n \<le> trk1 then loop os trk1 (n + 1) (ReadCDInfo_body os n st) else Some st)
                 = Some r"
  show "trk1 \<noteq> 255"
  proof (cases "n \<le> trk1")
    case True
    with step show ?thesis by (simp add: IH)
  next
    case False
    then have "unat trk1 < unat n"
      by (simp add: word_le_nat_alt)
    moreover have "unat n < 256"
      using unsigned_less [of n, where ?'a = nat] by simp
    ultimately show ?thesis
      by auto
  qed
qed

lemma ReadCDInfo_loop_255: "ReadCDInfo_loop os 255 n st = None"
  using ReadCDInfo_loop_returns_below_255 [of os 255 n st]
  by (cases "ReadCDInfo_loop os 255 n st") auto

lemma ReadCDInfo_header_255:
  assumes "ioctl_CDROMREADTOCHDR os log (m_device s) = Some header"
    and "cdth_trk1 header = 255"
  shows "ReadCDInfo os (s, log) = None"
  using assms by (simp add: ReadCDInfo_def Let_def ReadCDInfo_loop_255)

lemma toc_log_Suc:
  "first \<le> j \<Longrightarrow> toc_log fd log first (Suc j) = toc_log fd log first j @ [toc_event fd j]"
  by (simp add: toc_log_def)

lemma toc_built_Suc:
  "first \<le> j \<Longrightarrow>
   toc_built os fd log first (Suc j) =
     toc_built os fd log first j
     @ (case toc_reply os fd log first j of
          None \<Rightarrow> []
        | Some reply \<Rightarrow> [\<lparr>lba = cdte_addr_lba reply, track = of_nat j,
                          adr = cdte_adr reply, control = cdte_ctrl reply\<rparr>])"
  by (simp add: toc_built_def)

lemma ReadCDInfo_body_step:
  assumes "cdte_format entry = CDROM_LBA" and "first \<le> unat n"
  shows "\<exists>entry'. ReadCDInfo_body os n
            (entry, s\<lparr>m_toc := toc_built os (m_device s) log first (unat n)\<rparr>,
             toc_log (m_device s) log first (unat n))
          = (entry', s\<lparr>m_toc := toc_built os (m_device s) log first (Suc (unat n))\<rparr>,
             toc_log (m_device s) log first (Suc (unat n)))
        \<and> cdte_format entry' = CDROM_LBA"
proof (cases "toc_reply os (m_device s) log first (unat n)")
  case None
  then have "ioctl_CDROMREADTOCENTRY os (toc_log (m_device s) log first (unat n)) (m_device s) n
               CDROM_LBA = None"
    by (simp add: toc_reply_def)
  with None assms show ?thesis
    by (simp add: ReadCDInfo_body_def Let_def toc_log_Suc toc_built_Suc toc_event_def)
next
  case (Some reply)
  then have "ioctl_CDROMREADTOCENTRY os (toc_log (m_device s) log first (unat n)) (m_device s) n
               CDROM_LBA = Some reply"
    by (simp add: toc_reply_def)
  with Some assms show ?thesis
    by (simp add: ReadCDInfo_body_def Let_def toc_log_Suc toc_built_Suc toc_event_def
        fill_tocentry_def)
qed

lemma unat_u8_succ:
  fixes n trk1 :: u8
  assumes "n \<le> trk1" and "trk1 \<noteq> 255"
  shows "unat (n + 1) = Suc (unat n)"
proof -
  have "unat n \<le> unat trk1"
    using assms(1) by (simp add: word_le_nat_alt)
  moreover have "unat trk1 < 256"
    using unsigned_less [of trk1, where ?'a = nat] by simp
  moreover have "unat trk1 \<noteq> 255"
    using assms(2) by (simp add: word_eq_iff_unsigned [where ?'a = nat])
  ultimately have "unat n + 1 < 2 ^ LENGTH(8)"
    by simp
  then show ?thesis
    by (simp add: unat_word_ariths)
qed

lemma ReadCDInfo_loop_from:
  assumes "trk1 \<noteq> 255"
    and "cdte_format entry = CDROM_LBA"
    and "first \<le> unat n"
    and "d = Suc (unat trk1) - unat n"
  shows "\<exists>entry'. ReadCDInfo_loop os trk1 n
            (entry, s\<lparr>m_toc := toc_built os (m_device s) log first (unat n)\<rparr>,
             toc_log (m_device s) log first (unat n))
          = Some (entry',
                  s\<lparr>m_toc := toc_built os (m_device s) log first
                                 (max (unat n) (Suc (unat trk1)))\<rparr>,
                  toc_log (m_device s) log first (max (unat n) (Suc (unat trk1))))
        \<and> cdte_format entry' = CDROM_LBA"
  using assms
proof (induction d arbitrary: n entry)
  case 0
  then have "unat trk1 < unat n"
    by simp
  then have "\<not> n \<le> trk1" and "max (unat n) (Suc (unat trk1)) = unat n"
    by (simp_all add: word_le_nat_alt)
  with 0 show ?case
    by (subst ReadCDInfo_loop.simps) simp
next
  case (Suc d)
  then have le: "unat n \<le> unat trk1"
    by simp
  then have nle: "n \<le> trk1"
    by (simp add: word_le_nat_alt)
  with Suc.prems have succ: "unat (n + 1) = Suc (unat n)"
    by (intro unat_u8_succ [of n trk1])
  from ReadCDInfo_body_step [OF Suc.prems(2,3), of os s log]
  obtain entry1 where body: "ReadCDInfo_body os n
            (entry, s\<lparr>m_toc := toc_built os (m_device s) log first (unat n)\<rparr>,
             toc_log (m_device s) log first (unat n))
          = (entry1, s\<lparr>m_toc := toc_built os (m_device s) log first (Suc (unat n))\<rparr>,
             toc_log (m_device s) log first (Suc (unat n)))"
    and fmt: "cdte_format entry1 = CDROM_LBA"
    by blast
  have "first \<le> unat (n + 1)" and "d = Suc (unat trk1) - unat (n + 1)"
    using Suc.prems(3,4) by (simp_all add: succ)
  with Suc.prems(1) fmt
  have "\<exists>entry'. ReadCDInfo_loop os trk1 (n + 1)
            (entry1, s\<lparr>m_toc := toc_built os (m_device s) log first (unat (n + 1))\<rparr>,
             toc_log (m_device s) log first (unat (n + 1)))
          = Some (entry',
                  s\<lparr>m_toc := toc_built os (m_device s) log first
                                 (max (unat (n + 1)) (Suc (unat trk1)))\<rparr>,
                  toc_log (m_device s) log first (max (unat (n + 1)) (Suc (unat trk1))))
        \<and> cdte_format entry' = CDROM_LBA"
    by (intro Suc.IH)
  moreover have "max (unat (n + 1)) (Suc (unat trk1)) = max (unat n) (Suc (unat trk1))"
    using le by (simp add: succ)
  ultimately show ?case
    using nle by (subst ReadCDInfo_loop.simps) (simp add: body succ)
qed

text \<open>
  The CD probe on a header whose last track is below 255: the probe returns; the entries
  of the tracks first to last are asked for in ascending order, each once and in LBA
  format; the TOC is made of the entries that could be read, in that order; then the
  lead-out entry is asked for, and its reply decides the result.
\<close>

lemma ReadCDInfo_below_255:
  assumes "ioctl_CDROMREADTOCHDR os log (m_device s) = Some header"
    and "cdth_trk1 header \<noteq> 255"
  shows "ReadCDInfo os (s, log) =
           (let fd = m_device s;
                log1 = log @ [IOCTL_CDROMREADTOCHDR fd];
                first = unat (cdth_trk0 header);
                j = max first (Suc (unat (cdth_trk1 header)));
                toc = toc_built os fd log1 first j;
                log2 = toc_log fd log1 first j;
                log3 = log2 @ [IOCTL_CDROMREADTOCENTRY fd 0xAA CDROM_LBA]
            in case ioctl_CDROMREADTOCENTRY os log2 fd 0xAA CDROM_LBA of
                 None \<Rightarrow> Some (False, (s\<lparr>m_toc := toc\<rparr>, log3))
               | Some reply \<Rightarrow>
                   Some (True, (s\<lparr>m_toc := toc, m_sectors := cdte_addr_lba reply,
                                  m_media_type := - 1\<rparr>, log3)))"
proof -
  define fd where "fd = m_device s"
  define log1 where "log1 = log @ [IOCTL_CDROMREADTOCHDR fd]"
  define first where "first = unat (cdth_trk0 header)"
  define j where "j = max first (Suc (unat (cdth_trk1 header)))"
  have start: "toc_built os fd log1 first first = []" "toc_log fd log1 first first = log1"
    by (simp_all add: toc_built_def toc_log_def)
  have "\<exists>entry'. ReadCDInfo_loop os (cdth_trk1 header) (cdth_trk0 header)
            (tocentry_zero\<lparr>cdte_format := CDROM_LBA\<rparr>,
             s\<lparr>m_toc := toc_built os (m_device s) log1 first (unat (cdth_trk0 header))\<rparr>,
             toc_log (m_device s) log1 first (unat (cdth_trk0 header)))
          = Some (entry',
                  s\<lparr>m_toc := toc_built os (m_device s) log1 first
                                 (max (unat (cdth_trk0 header)) (Suc (unat (cdth_trk1 header))))\<rparr>,
                  toc_log (m_device s) log1 first
                    (max (unat (cdth_trk0 header)) (Suc (unat (cdth_trk1 header)))))
        \<and> cdte_format entry' = CDROM_LBA"
    using assms(2) by (intro ReadCDInfo_loop_from) (simp_all add: first_def)
  then obtain entry' where
    loop: "ReadCDInfo_loop os (cdth_trk1 header) (cdth_trk0 header)
            (tocentry_zero\<lparr>cdte_format := CDROM_LBA\<rparr>, s\<lparr>m_toc := []\<rparr>, log1)
          = Some (entry', s\<lparr>m_toc := toc_built os fd log1 first j\<rparr>, toc_log fd log1 first j)"
    and fmt: "cdte_format entry' = CDROM_LBA"
    using start by (auto simp add: fd_def [symmetric] first_def [symmetric] j_def [symmetric])
  show ?thesis
    using assms(1) loop fmt
    by (simp add: ReadCDInfo_def Let_def fd_def [symmetric] log1_def [symmetric]
        first_def [symmetric] j_def [symmetric] fill_tocentry_def split: option.split)
qed

text \<open>An example: the tracks 1 to 3, of which track 2 cannot be read.\<close>

lemma ReadCDInfo_three_tracks:
  "ReadCDInfo cd_three (session0, [])
     = Some (True,
             (session0\<lparr>m_toc := [\<lparr>lba = 0x1000, track = 1, adr = 1, control = 4\<rparr>,
                                  \<lparr>lba = 0x3000, track = 3, adr = 1, control = 4\<rparr>],
                       m_sectors := 0x3000, m_media_type := - 1\<rparr>,
              [IOCTL_CDROMREADTOCHDR 3, IOCTL_CDROMREADTOCENTRY 3 1 1,
               IOCTL_CDROMREADTOCENTRY 3 2 1, IOCTL_CDROMREADTOCENTRY 3 3 1,
               IOCTL_CDROMREADTOCENTRY 3 0xAA 1]))"
  by (simp add: ReadCDInfo_def Let_def ReadCDInfo_loop.simps ReadCDInfo_body_def
      cd_three_def no_device_def cd_reply_def session0_def tocentry_zero_def CDROM_LBA_def
      fill_tocentry_def)

text \<open>
  C5, as the code has it.  The CD probe clears the stored TOC only once the header has been
  read: a probe whose header read fails returns false and leaves the session, the stored
  TOC included, as it was; a probe whose header read succeeds does not depend on the TOC
  stored before.
\<close>

theorem ReadCDInfo_clears_after_header:
  "(case ioctl_CDROMREADTOCHDR os log (m_device s) of
      None \<Rightarrow>
        ReadCDInfo os (s, log) = Some (False, (s, log @ [IOCTL_CDROMREADTOCHDR (m_device s)]))
    | Some header \<Rightarrow>
        ReadCDInfo os (s, log) = ReadCDInfo os (s\<lparr>m_toc := []\<rparr>, log))"
  by (simp add: ReadCDInfo_def Let_def split: option.split)

theorem ReadCDInfo_clears_after_header_witness:
  "ReadCDInfo no_device (session_cd, [])
     = Some (False, (session_cd, [IOCTL_CDROMREADTOCHDR 3]))
   \<and> ReadCDInfo cd_three (session_cd, []) = ReadCDInfo cd_three (session_cd\<lparr>m_toc := []\<rparr>, [])
   \<and> ReadCDInfo cd_three (session_cd\<lparr>m_toc := []\<rparr>, [])
       = Some (True,
               (session_cd\<lparr>m_toc := [\<lparr>lba = 0x1000, track = 1, adr = 1, control = 4\<rparr>,
                                     \<lparr>lba = 0x3000, track = 3, adr = 1, control = 4\<rparr>]\<rparr>,
                [IOCTL_CDROMREADTOCHDR 3, IOCTL_CDROMREADTOCENTRY 3 1 1,
                 IOCTL_CDROMREADTOCENTRY 3 2 1, IOCTL_CDROMREADTOCENTRY 3 3 1,
                 IOCTL_CDROMREADTOCENTRY 3 0xAA 1]))"
proof -
  have "ReadCDInfo cd_three (session_cd\<lparr>m_toc := []\<rparr>, [])
       = Some (True,
               (session_cd\<lparr>m_toc := [\<lparr>lba = 0x1000, track = 1, adr = 1, control = 4\<rparr>,
                                     \<lparr>lba = 0x3000, track = 3, adr = 1, control = 4\<rparr>]\<rparr>,
                [IOCTL_CDROMREADTOCHDR 3, IOCTL_CDROMREADTOCENTRY 3 1 1,
                 IOCTL_CDROMREADTOCENTRY 3 2 1, IOCTL_CDROMREADTOCENTRY 3 3 1,
                 IOCTL_CDROMREADTOCENTRY 3 0xAA 1]))"
    by (simp add: ReadCDInfo_def Let_def ReadCDInfo_loop.simps ReadCDInfo_body_def
        cd_three_def no_device_def cd_reply_def session_cd_def tocentry_zero_def CDROM_LBA_def
        fill_tocentry_def)
  moreover have "ReadCDInfo no_device (session_cd, [])
                   = Some (False, (session_cd, [IOCTL_CDROMREADTOCHDR 3]))
     \<and> ReadCDInfo cd_three (session_cd, []) = ReadCDInfo cd_three (session_cd\<lparr>m_toc := []\<rparr>, [])"
    using ReadCDInfo_clears_after_header [where os = no_device and log = "[]" and s = session_cd]
      ReadCDInfo_clears_after_header [where os = cd_three and log = "[]" and s = session_cd]
    by (simp add: no_device_def cd_three_def session_cd_def)
  ultimately show ?thesis
    by simp
qed

text \<open>
  C5, as stated, fails: the session \<open>session_cd\<close> holds a TOC of one entry, the header
  read fails, and the probe leaves that TOC in the session.
\<close>

theorem ReadCDInfo_failed_header_counterexample:
  "ReadTOC session_cd = [\<lparr>lba = 0, track = 1, adr = 1, control = 4\<rparr>]
   \<and> ioctl_CDROMREADTOCHDR no_device [] (m_device session_cd) = None
   \<and> ReadCDInfo no_device (session_cd, [])
       = Some (False, (session_cd, [IOCTL_CDROMREADTOCHDR 3]))
   \<and> ReadTOC session_cd \<noteq> []"
  by (simp add: ReadCDInfo_def Let_def no_device_def session_cd_def ReadTOC_def)

text \<open>
  C4, at a header whose last track is 255.  The header read succeeds, and the probe does
  not return: the byte counter of the loop wraps from 255 to 0, so the loop over the
  tracks never ends and the lead-out entry is never read.
\<close>

theorem ReadCDInfo_last_track_255:
  "ioctl_CDROMREADTOCHDR cd_255 [] (m_device session0)
     = Some \<lparr>cdth_trk0 = 1, cdth_trk1 = 255\<rparr>
   \<and> ReadCDInfo cd_255 (session0, []) = None"
proof -
  have "ioctl_CDROMREADTOCHDR cd_255 [] (m_device session0)
          = Some \<lparr>cdth_trk0 = 1, cdth_trk1 = 255\<rparr>"
    by (simp add: cd_255_def no_device_def)
  then show ?thesis
    using ReadCDInfo_header_255 [of cd_255 "[]" session0 "\<lparr>cdth_trk0 = 1, cdth_trk1 = 255\<rparr>"]
    by simp
qed

section \<open>Reopen and DiscReady\<close>

lemma ReadDVDInfo_first_call:
  "\<exists>rest. snd (snd (ReadDVDInfo os (s, log)))
             = log @ IOCTL_DVD_READ_STRUCT (m_device s) DVD_STRUCT_PHYSICAL 0 # rest"
  by (simp add: ReadDVDInfo_def Let_def split: option.split)

text \<open>
  C3, at a device that opens, is no DVD, and gives 255 as the last track of the TOC header.
  \<open>Reopen\<close> opens the device, the DVD probe fails, the CD probe is run, and \<open>Reopen\<close>
  does not return: the loop over the tracks of the CD probe never ends.
\<close>

theorem Reopen_last_track_255:
  "fst (open_reply cd_255 (session_new, [])) = 3
   \<and> ReadDVDInfo cd_255 (after_open cd_255 (session_new, []))
       = (False, (session_new\<lparr>m_device := 3\<rparr>,
                  [SYS_open ''/dev/sr0'' 2048, IOCTL_DVD_READ_STRUCT 3 0 0]))
   \<and> Reopen cd_255 None (session_new, []) = None"
proof -
  have op: "fst (open_reply cd_255 (session_new, [])) = 3"
    by (simp add: open_reply_def cd_255_def no_device_def)
  have dv: "ReadDVDInfo cd_255 (after_open cd_255 (session_new, []))
       = (False, (session_new\<lparr>m_device := 3\<rparr>,
                  [SYS_open ''/dev/sr0'' 2048, IOCTL_DVD_READ_STRUCT 3 0 0]))"
    by (simp add: ReadDVDInfo_def Let_def after_open_def open_reply_def close_log_def
        cd_255_def no_device_def session_new_def O_RDONLY_NONBLOCK_def DVD_STRUCT_PHYSICAL_def)
  have cd: "ReadCDInfo cd_255 (session_new\<lparr>m_device := 3\<rparr>,
                  [SYS_open ''/dev/sr0'' 2048, IOCTL_DVD_READ_STRUCT 3 0 0]) = None"
    by (rule ReadCDInfo_header_255 [where header = "\<lparr>cdth_trk0 = 1, cdth_trk1 = 255\<rparr>"])
      (simp_all add: cd_255_def no_device_def)
  have "Reopen cd_255 None (session_new, []) = None"
    using op by (simp add: Reopen_opened dv cd)
  with op dv show ?thesis
    by simp
qed

text \<open>
  C10.  When \<^verbatim>\<open>open\<close> fails in \<open>Reopen\<close>, \<open>Reopen\<close> returns false and reports \<open>errno\<close>
  to the sink; the session is left without a handle, with its sector count, layer break
  and media type as they were; and \<open>DiscReady\<close> on that session returns false without
  a call on the device and without a change to the session.
\<close>

theorem Reopen_failure_keeps_geometry:
  assumes "fst (open_reply os w) = - 1"
  shows "Reopen os error w
           = Some (False, SetErrno error (snd (open_reply os w)), after_open os w)
       \<and> m_device (fst (after_open os w)) = - 1
       \<and> GetSectorCount (fst (after_open os w)) = GetSectorCount (fst w)
       \<and> GetLayerBreakAddress (fst (after_open os w)) = GetLayerBreakAddress (fst w)
       \<and> GetMediaType (fst (after_open os w)) = GetMediaType (fst w)
       \<and> DiscReady os (after_open os w) = Some (False, after_open os w)"
  using assms
  by (cases w)
    (simp add: Reopen_def DiscReady_def Let_def after_open_def open_reply_def close_log_def
      GetSectorCount_def GetLayerBreakAddress_def GetMediaType_def)

theorem Reopen_failure_keeps_geometry_witness:
  "fst (open_reply no_device (session_dvd, [])) = - 1
   \<and> Reopen no_device (Some Error_unset) (session_dvd, [])
       = Some (False, Some (Error_errno 2),
               (session_dvd\<lparr>m_device := - 1\<rparr>, [SYS_close 3, SYS_open ''/dev/sr0'' 2048]))
   \<and> GetSectorCount (session_dvd\<lparr>m_device := - 1\<rparr>) = 0x231280
   \<and> GetLayerBreakAddress (session_dvd\<lparr>m_device := - 1\<rparr>) = 0x1000
   \<and> GetMediaType (session_dvd\<lparr>m_device := - 1\<rparr>) = 1
   \<and> DiscReady no_device
         (session_dvd\<lparr>m_device := - 1\<rparr>, [SYS_close 3, SYS_open ''/dev/sr0'' 2048])
       = Some (False,
               (session_dvd\<lparr>m_device := - 1\<rparr>, [SYS_close 3, SYS_open ''/dev/sr0'' 2048]))"
  using Reopen_failure_keeps_geometry [of no_device "(session_dvd, [])" "Some Error_unset"]
  by (simp add: after_open_def open_reply_def close_log_def no_device_def session_dvd_def
      SetErrno_def O_RDONLY_NONBLOCK_def GetSectorCount_def GetLayerBreakAddress_def
      GetMediaType_def)

text \<open>
  What \<open>DiscReady\<close> does on a session with an open handle.  It asks for the drive status
  of the current slot.  If the status is not "disc present", it returns false and the sector
  count, the layer break and the media type are 0.  If the status is "disc present" and
  the sector count is not 0, it returns true and changes nothing; if the sector count
  is 0, it runs \<open>Reopen\<close> and then returns true exactly when the sector count of the
  session is not 0.  It returns in every case but the one where the \<open>Reopen\<close> it runs
  does not.
\<close>

lemma DiscReady_status:
  assumes "m_device s \<noteq> - 1"
  shows "(ioctl_CDROM_DRIVE_STATUS os log (m_device s) CDSL_CURRENT \<noteq> CDS_DISC_OK \<longrightarrow>
            (\<exists>s'. DiscReady os (s, log)
                    = Some (False, (s', log @ [IOCTL_CDROM_DRIVE_STATUS (m_device s) CDSL_CURRENT]))
                 \<and> s' = s\<lparr>m_sectors := 0, m_layer_break := 0, m_media_type := 0\<rparr>
                 \<and> GetSectorCount s' = 0 \<and> GetLayerBreakAddress s' = 0
                 \<and> GetMediaType s' = 0))
       \<and> (ioctl_CDROM_DRIVE_STATUS os log (m_device s) CDSL_CURRENT = CDS_DISC_OK
            \<and> m_sectors s \<noteq> 0 \<longrightarrow>
            DiscReady os (s, log)
              = Some (True, (s, log @ [IOCTL_CDROM_DRIVE_STATUS (m_device s) CDSL_CURRENT])))
       \<and> (ioctl_CDROM_DRIVE_STATUS os log (m_device s) CDSL_CURRENT = CDS_DISC_OK
            \<and> m_sectors s = 0 \<longrightarrow>
            DiscReady os (s, log)
              = (case Reopen os None
                        (s, log @ [IOCTL_CDROM_DRIVE_STATUS (m_device s) CDSL_CURRENT]) of
                   None \<Rightarrow> None
                 | Some (r, e, w') \<Rightarrow> Some (GetSectorCount (fst w') \<noteq> 0, w')))
       \<and> (\<forall>b w'. DiscReady os (s, log) = Some (b, w') \<longrightarrow> b = (GetSectorCount (fst w') \<noteq> 0))
       \<and> (DiscReady os (s, log) = None \<longleftrightarrow>
            ioctl_CDROM_DRIVE_STATUS os log (m_device s) CDSL_CURRENT = CDS_DISC_OK
            \<and> m_sectors s = 0
            \<and> Reopen os None (s, log @ [IOCTL_CDROM_DRIVE_STATUS (m_device s) CDSL_CURRENT])
                = None)"
  using assms
  by (auto simp add: DiscReady_def Let_def GetSectorCount_def GetLayerBreakAddress_def
      GetMediaType_def split: option.splits prod.splits)

lemma DiscReady_status_examples:
  "m_device session_dvd \<noteq> - 1
   \<and> ioctl_CDROM_DRIVE_STATUS no_device [] (m_device session_dvd) CDSL_CURRENT \<noteq> CDS_DISC_OK
   \<and> DiscReady no_device (session_dvd, [])
       = Some (False, (session_dvd\<lparr>m_sectors := 0, m_layer_break := 0, m_media_type := 0\<rparr>,
                       [IOCTL_CDROM_DRIVE_STATUS 3 2147483647]))
   \<and> ioctl_CDROM_DRIVE_STATUS dvd_single [] (m_device session_dvd) CDSL_CURRENT = CDS_DISC_OK
   \<and> DiscReady dvd_single (session_dvd, [])
       = Some (True, (session_dvd, [IOCTL_CDROM_DRIVE_STATUS 3 2147483647]))
   \<and> DiscReady dvd_single (session0, [])
       = Some (True, (session0\<lparr>m_media_type := 0, m_layer_break := 0, m_sectors := 0x231280\<rparr>,
                      [IOCTL_CDROM_DRIVE_STATUS 3 2147483647, SYS_close 3,
                       SYS_open ''/dev/sr0'' 2048, IOCTL_DVD_READ_STRUCT 3 0 0]))"
proof -
  have re: "Reopen dvd_single None (session0, [IOCTL_CDROM_DRIVE_STATUS 3 2147483647])
              = Some (True, None,
                      (session0\<lparr>m_media_type := 0, m_layer_break := 0, m_sectors := 0x231280\<rparr>,
                       [IOCTL_CDROM_DRIVE_STATUS 3 2147483647, SYS_close 3,
                        SYS_open ''/dev/sr0'' 2048, IOCTL_DVD_READ_STRUCT 3 0 0]))"
    by (simp add: Reopen_def Let_def ReadDVDInfo_def dvd_single_def no_device_def
        layer_single_def session0_def O_RDONLY_NONBLOCK_def DVD_STRUCT_PHYSICAL_def
        SetSpindleSpeed_def)

  have dev: "m_device session0 \<noteq> - 1"
    by (simp add: session0_def)
  have st: "ioctl_CDROM_DRIVE_STATUS dvd_single [] (m_device session0) CDSL_CURRENT = CDS_DISC_OK"
    by (simp add: dvd_single_def no_device_def CDS_DISC_OK_def)
  have z: "m_sectors session0 = 0"
    by (simp add: session0_def)
  have ev: "[] @ [IOCTL_CDROM_DRIVE_STATUS (m_device session0) CDSL_CURRENT]
              = [IOCTL_CDROM_DRIVE_STATUS 3 2147483647]"
    by (simp add: session0_def CDSL_CURRENT_def)
  from DiscReady_status [OF dev, of dvd_single "[]"] st z
  have "DiscReady dvd_single (session0, [])
          = (case Reopen dvd_single None
                    (session0, [] @ [IOCTL_CDROM_DRIVE_STATUS (m_device session0) CDSL_CURRENT]) of
               None \<Rightarrow> None
             | Some (r, e, w') \<Rightarrow> Some (GetSectorCount (fst w') \<noteq> 0, w'))"
    by blast
  then have d3: "DiscReady dvd_single (session0, [])
       = Some (True, (session0\<lparr>m_media_type := 0, m_layer_break := 0, m_sectors := 0x231280\<rparr>,
                      [IOCTL_CDROM_DRIVE_STATUS 3 2147483647, SYS_close 3,
                       SYS_open ''/dev/sr0'' 2048, IOCTL_DVD_READ_STRUCT 3 0 0]))"
    by (simp only: ev re) (simp add: GetSectorCount_def)
  have "m_device session_dvd \<noteq> - 1
   \<and> ioctl_CDROM_DRIVE_STATUS no_device [] (m_device session_dvd) CDSL_CURRENT \<noteq> CDS_DISC_OK
   \<and> DiscReady no_device (session_dvd, [])
       = Some (False, (session_dvd\<lparr>m_sectors := 0, m_layer_break := 0, m_media_type := 0\<rparr>,
                       [IOCTL_CDROM_DRIVE_STATUS 3 2147483647]))
   \<and> ioctl_CDROM_DRIVE_STATUS dvd_single [] (m_device session_dvd) CDSL_CURRENT = CDS_DISC_OK
   \<and> DiscReady dvd_single (session_dvd, [])
       = Some (True, (session_dvd, [IOCTL_CDROM_DRIVE_STATUS 3 2147483647]))"
    using DiscReady_status [of session_dvd no_device "[]"]
      DiscReady_status [of session_dvd dvd_single "[]"]
    by (simp add: no_device_def dvd_single_def session_dvd_def CDSL_CURRENT_def CDS_DISC_OK_def)
  with d3 show ?thesis
    by simp
qed

text \<open>
  C7, at a session with an open handle and the sector count 0, over a device that reports
  "disc present", opens, is no DVD, and gives 255 as the last track of the TOC header.
  \<open>DiscReady\<close> asks for the status, runs \<open>Reopen\<close>, and does not return: the loop over the
  tracks of the CD probe never ends.  So it does not return true or false here.
\<close>

theorem DiscReady_last_track_255:
  "m_device session0 = 3
   \<and> m_sectors session0 = 0
   \<and> ioctl_CDROM_DRIVE_STATUS cd_255 [] (m_device session0) CDSL_CURRENT = CDS_DISC_OK
   \<and> ReadDVDInfo cd_255
         (after_open cd_255 (session0, [IOCTL_CDROM_DRIVE_STATUS 3 2147483647]))
       = (False, (session0,
                  [IOCTL_CDROM_DRIVE_STATUS 3 2147483647, SYS_close 3,
                   SYS_open ''/dev/sr0'' 2048, IOCTL_DVD_READ_STRUCT 3 0 0]))
   \<and> DiscReady cd_255 (session0, []) = None"
proof -
  have dev: "m_device session0 = 3" and z: "m_sectors session0 = 0"
    by (simp_all add: session0_def)
  have st: "ioctl_CDROM_DRIVE_STATUS cd_255 [] (m_device session0) CDSL_CURRENT = CDS_DISC_OK"
    by (simp add: cd_255_def no_device_def CDS_DISC_OK_def)
  have op: "fst (open_reply cd_255 (session0, [IOCTL_CDROM_DRIVE_STATUS 3 2147483647])) \<noteq> - 1"
    by (simp add: open_reply_def cd_255_def no_device_def)
  have dv: "ReadDVDInfo cd_255
              (after_open cd_255 (session0, [IOCTL_CDROM_DRIVE_STATUS 3 2147483647]))
       = (False, (session0,
                  [IOCTL_CDROM_DRIVE_STATUS 3 2147483647, SYS_close 3,
                   SYS_open ''/dev/sr0'' 2048, IOCTL_DVD_READ_STRUCT 3 0 0]))"
    by (simp add: ReadDVDInfo_def Let_def after_open_def open_reply_def close_log_def
        cd_255_def no_device_def session0_def O_RDONLY_NONBLOCK_def DVD_STRUCT_PHYSICAL_def)
  have cd: "ReadCDInfo cd_255
              (session0,
               [IOCTL_CDROM_DRIVE_STATUS 3 2147483647, SYS_close 3,
                SYS_open ''/dev/sr0'' 2048, IOCTL_DVD_READ_STRUCT 3 0 0]) = None"
    by (rule ReadCDInfo_header_255 [where header = "\<lparr>cdth_trk0 = 1, cdth_trk1 = 255\<rparr>"])
      (simp_all add: cd_255_def no_device_def)
  have re: "Reopen cd_255 None (session0, [IOCTL_CDROM_DRIVE_STATUS 3 2147483647]) = None"
    using op by (simp add: Reopen_opened dv cd)
  have ev: "[] @ [IOCTL_CDROM_DRIVE_STATUS (m_device session0) CDSL_CURRENT]
              = [IOCTL_CDROM_DRIVE_STATUS 3 2147483647]"
    by (simp add: dev CDSL_CURRENT_def)
  have "DiscReady cd_255 (session0, []) = None"
    using st z by (simp add: DiscReady_def Let_def dev ev [unfolded dev] re CDSL_CURRENT_def)
  with dev z st dv show ?thesis
    by simp
qed

section \<open>Sector reads\<close>

text \<open>
  What \<open>ReadSectors2048\<close> does, for every sector and count: one \<^verbatim>\<open>pread\<close>, and true
  exactly when it returns the byte count asked for.  The offset is \<open>sector * 2048\<close>
  without wrap-around; the byte count asked for is \<open>2048 * count\<close> modulo \<open>2 ^ 32\<close>.
\<close>

lemma ReadSectors2048_result:
  "ReadSectors2048 os (s, log) sector count buffer
     = (fst (sys_pread os log (m_device s) (ucast (2048 * count)) (ucast sector * 2048) buffer)
          = ucast (2048 * count),
        snd (sys_pread os log (m_device s) (ucast (2048 * count)) (ucast sector * 2048) buffer),
        log @ [SYS_pread (m_device s) (ucast (2048 * count)) (ucast sector * 2048)])"
  by (simp add: ReadSectors2048_def Let_def)

lemma unat_ucast_u32_u64: "unat (ucast (w :: u32) :: u64) = unat w"
proof -
  have "unat w < 2 ^ 32"
    using unsigned_less [of w, where ?'a = nat] by simp
  then have "unat w < 2 ^ 64"
    by simp
  then show ?thesis
    by (simp add: unsigned_ucast_eq take_bit_nat_eq_self)
qed

lemma ReadSectors2048_offset_exact:
  "unat (ucast (sector :: u32) * 2048 :: u64) = unat sector * 2048"
proof -
  have "unat sector < 2 ^ 32"
    using unsigned_less [of sector, where ?'a = nat] by simp
  then have "unat sector * 2048 < 2 ^ 64"
    by simp
  then show ?thesis
    by (simp add: unat_word_ariths unat_ucast_u32_u64)
qed

lemma ReadSectors2048_count_mod:
  "unat (ucast (2048 * count :: u32) :: u64) = (2048 * unat count) mod 2 ^ 32"
  by (simp add: unat_word_ariths unat_ucast_u32_u64)

text \<open>
  C6, at sector 0 and count \<open>0x200001\<close>, on a device whose \<^verbatim>\<open>pread\<close> transfers as much
  as it is asked for.  \<open>count * 2048\<close> is 4294969344, but the reader asks for 2048 bytes
  (the product wraps in 32 bits), 2048 bytes are transferred, and it returns true.
\<close>

theorem ReadSectors2048_count_wraps:
  "ReadSectors2048 disc_image (session0, []) 0 0x200001 (\<lambda>i. 0)
     = (True, (\<lambda>i. 0), [SYS_pread 3 2048 0])
   \<and> unat (0x200001 :: u32) * 2048 = 4294969344"
  by (simp add: ReadSectors2048_def Let_def disc_image_def no_device_def session0_def)

text \<open>The raw reads: the loop of \<open>ReadSectors2352\<close>, from any sector on.\<close>

lemma frames_written_0: "frames_written os l2m fd sector log buffer 0 = buffer"
  by (simp add: frames_written_def)

lemma raw_log_0: "raw_log l2m fd sector log 0 = log"
  by (simp add: raw_log_def)

lemma raw_log_Suc:
  "raw_log l2m fd sector log (Suc j) = raw_log l2m fd sector log j @ [raw_event l2m fd sector j]"
  by (simp add: raw_log_def)

lemma frame_index:
  fixes i j :: nat
  assumes "j * 2352 \<le> i" and "i < j * 2352 + 2352"
  shows "i div 2352 = j" and "i mod 2352 = i - j * 2352"
proof -
  show dv: "i div 2352 = j"
  proof (rule div_nat_eqI)
    show "2352 * j \<le> i" using assms by simp
    show "i < 2352 * Suc j" using assms by simp
  qed
  have "i mod 2352 = i - 2352 * (i div 2352)"
    by (simp add: minus_mult_div_eq_mod)
  then show "i mod 2352 = i - j * 2352"
    by (simp add: dv)
qed

lemma memcpy_frame_written:
  assumes "raw_reply os l2m fd sector log j = Some data"
  shows "memcpy_frame (frames_written os l2m fd sector log buffer j) (j * CD_FRAMESIZE_RAW) data
           = frames_written os l2m fd sector log buffer (Suc j)"
proof (rule ext)
  fix i
  show "memcpy_frame (frames_written os l2m fd sector log buffer j) (j * CD_FRAMESIZE_RAW) data i
           = frames_written os l2m fd sector log buffer (Suc j) i"
  proof (cases "j * 2352 \<le> i \<and> i < j * 2352 + 2352")
    case True
    then show ?thesis
      using assms frame_index [of j i]
      by (simp add: memcpy_frame_def frames_written_def CD_FRAMESIZE_RAW_def)
  next
    case False
    then show ?thesis
      by (auto simp add: memcpy_frame_def frames_written_def CD_FRAMESIZE_RAW_def)
  qed
qed

lemma unat_word_succ:
  fixes n count :: u32
  assumes "n < count"
  shows "unat (n + 1) = Suc (unat n)"
  using assms by (metis add.commute max_word_wrap unatSuc word_order.extremum_strict)

lemma ReadSectors2352_loop_from:
  fixes n count :: u32
  assumes "unat n + d = k"
    and "k \<le> unat count"
    and "\<forall>j<k. raw_reply os l2m fd sector log j \<noteq> None"
    and "k < unat count \<longrightarrow> raw_reply os l2m fd sector log k = None"
  shows "ReadSectors2352_loop os l2m fd sector count n
           (frames_written os l2m fd sector log buffer (unat n), unat n * CD_FRAMESIZE_RAW,
            raw_log l2m fd sector log (unat n))
         = (k = unat count, frames_written os l2m fd sector log buffer k,
            raw_log l2m fd sector log (if k < unat count then Suc k else k))"
  using assms
proof (induction d arbitrary: n)
  case 0
  then have k: "k = unat n" by simp
  show ?case
  proof (cases "n < count")
    case True
    then have lt: "k < unat count"
      by (simp add: k word_less_nat_alt)
    with 0 have none: "raw_reply os l2m fd sector log (unat n) = None"
      by (simp add: k)
    obtain m sc f where msf: "l2m (sector + n) = (m, sc, f)"
      by (cases "l2m (sector + n)")
    from none msf
    have "ioctl_CDROMREADRAW os (raw_log l2m fd sector log (unat n)) fd (m, sc, f) = None"
      by (simp add: raw_reply_def)
    with True msf lt show ?thesis
      by (subst ReadSectors2352_loop.simps) (simp add: k raw_log_Suc raw_event_def)
  next
    case False
    with 0 have "k = unat count"
      by (simp add: k word_less_nat_alt)
    with False show ?thesis
      by (subst ReadSectors2352_loop.simps) (simp add: k)
  qed
next
  case (Suc d)
  then have lt: "unat n < k" by simp
  with Suc.prems have ltc: "unat n < unat count" by simp
  then have nlt: "n < count"
    by (simp add: word_less_nat_alt)
  then have succ: "unat (n + 1) = Suc (unat n)"
    by (rule unat_word_succ)
  from lt Suc.prems(3) have "raw_reply os l2m fd sector log (unat n) \<noteq> None"
    by blast
  then obtain data where data: "raw_reply os l2m fd sector log (unat n) = Some data"
    by blast
  obtain m sc f where msf: "l2m (sector + n) = (m, sc, f)"
    by (cases "l2m (sector + n)")
  from data msf
  have io: "ioctl_CDROMREADRAW os (raw_log l2m fd sector log (unat n)) fd (m, sc, f) = Some data"
    by (simp add: raw_reply_def)
  have "unat (n + 1) + d = k"
    using Suc.prems(1) by (simp add: succ)
  then have IH: "ReadSectors2352_loop os l2m fd sector count (n + 1)
           (frames_written os l2m fd sector log buffer (unat (n + 1)),
            unat (n + 1) * CD_FRAMESIZE_RAW,
            raw_log l2m fd sector log (unat (n + 1)))
         = (k = unat count, frames_written os l2m fd sector log buffer k,
            raw_log l2m fd sector log (if k < unat count then Suc k else k))"
    using Suc.prems(2,3,4) by (rule Suc.IH)
  have pos: "Suc (unat n) * CD_FRAMESIZE_RAW = unat n * CD_FRAMESIZE_RAW + CD_FRAMESIZE_RAW"
    by simp
  have step: "ReadSectors2352_loop os l2m fd sector count n
           (frames_written os l2m fd sector log buffer (unat n), unat n * CD_FRAMESIZE_RAW,
            raw_log l2m fd sector log (unat n))
        = ReadSectors2352_loop os l2m fd sector count (n + 1)
           (frames_written os l2m fd sector log buffer (Suc (unat n)),
            unat n * CD_FRAMESIZE_RAW + CD_FRAMESIZE_RAW,
            raw_log l2m fd sector log (Suc (unat n)))"
    using nlt msf io
    by (subst ReadSectors2352_loop.simps)
      (simp add: raw_log_Suc raw_event_def memcpy_frame_written [OF data])
  show ?case
    using IH [unfolded succ pos] by (simp only: step)
qed

text \<open>There is always a first failing sector, or none.\<close>

lemma first_failure_exists:
  "\<exists>k\<le>unat count. (\<forall>j<k. raw_reply os l2m fd sector log j \<noteq> None)
      \<and> (k < unat count \<longrightarrow> raw_reply os l2m fd sector log k = None)"
proof (cases "\<exists>j<unat count. raw_reply os l2m fd sector log j = None")
  case True
  define k where "k = (LEAST j. raw_reply os l2m fd sector log j = None)"
  from True obtain j where j: "j < unat count" "raw_reply os l2m fd sector log j = None"
    by blast
  have "raw_reply os l2m fd sector log k = None"
    unfolding k_def using j(2) by (rule LeastI)
  moreover have "k \<le> j"
    unfolding k_def using j(2) by (rule Least_le)
  moreover have "\<forall>i<k. raw_reply os l2m fd sector log i \<noteq> None"
    unfolding k_def using not_less_Least by blast
  ultimately show ?thesis
    using j(1) by (intro exI [of _ k]) simp
next
  case False
  then show ?thesis
    by (intro exI [of _ "unat count"]) simp
qed

text \<open>
  C8.  Let \<open>k\<close> be the first sector, counted from 0, whose raw read fails, or \<open>count\<close>
  if none fails.  Then \<open>ReadSectors2352\<close> makes one raw read for each of the sectors
  \<open>sector + 0\<close>, \<open>sector + 1\<close>, ... in this order, up to and including the failing one and
  none after it (so none twice: no retry); it returns true exactly when no read failed;
  the frame of the \<open>n\<close>-th sector, for \<open>n < k\<close>, is in the buffer at the offset
  \<open>n * 2352\<close>, and the buffer from \<open>k * 2352\<close> on is as it was.  The block address
  \<open>sector + n\<close> is computed in \<open>u32\<close>.
\<close>

theorem ReadSectors2352_fail_fast:
  assumes "k \<le> unat count"
    and "\<forall>j<k. raw_reply os l2m (m_device s) sector log j \<noteq> None"
    and "k < unat count \<longrightarrow> raw_reply os l2m (m_device s) sector log k = None"
  shows "ReadSectors2352 os l2m (s, log) sector count buffer
           = (k = unat count, frames_written os l2m (m_device s) sector log buffer k,
              raw_log l2m (m_device s) sector log (if k < unat count then Suc k else k))
       \<and> (\<forall>n<k. \<forall>i<CD_FRAMESIZE_RAW.
             map_option (\<lambda>data. data i) (raw_reply os l2m (m_device s) sector log n)
               = Some (frames_written os l2m (m_device s) sector log buffer k
                         (n * CD_FRAMESIZE_RAW + i)))
       \<and> (\<forall>i\<ge>k * CD_FRAMESIZE_RAW.
             frames_written os l2m (m_device s) sector log buffer k i = buffer i)"
proof (intro conjI allI impI)
  have "ReadSectors2352_loop os l2m (m_device s) sector count 0
           (frames_written os l2m (m_device s) sector log buffer (unat (0 :: u32)),
            unat (0 :: u32) * CD_FRAMESIZE_RAW,
            raw_log l2m (m_device s) sector log (unat (0 :: u32)))
         = (k = unat count, frames_written os l2m (m_device s) sector log buffer k,
            raw_log l2m (m_device s) sector log (if k < unat count then Suc k else k))"
    using assms by (intro ReadSectors2352_loop_from [where d = k]) simp_all
  then show "ReadSectors2352 os l2m (s, log) sector count buffer
           = (k = unat count, frames_written os l2m (m_device s) sector log buffer k,
              raw_log l2m (m_device s) sector log (if k < unat count then Suc k else k))"
    by (simp add: ReadSectors2352_def frames_written_0 raw_log_0)
next
  fix n i
  assume n: "n < k" and i: "i < CD_FRAMESIZE_RAW"
  from n assms(2) obtain data where data: "raw_reply os l2m (m_device s) sector log n = Some data"
    by blast
  from i have "(n * 2352 + i) div 2352 = n" "(n * 2352 + i) mod 2352 = i"
    by (simp_all add: CD_FRAMESIZE_RAW_def)
  moreover have "n * 2352 + i < k * 2352"
  proof -
    from n have "Suc n * 2352 \<le> k * 2352"
      by (intro mult_le_mono1) simp
    with i show ?thesis
      by (simp add: CD_FRAMESIZE_RAW_def)
  qed
  ultimately show "map_option (\<lambda>data. data i) (raw_reply os l2m (m_device s) sector log n)
               = Some (frames_written os l2m (m_device s) sector log buffer k
                         (n * CD_FRAMESIZE_RAW + i))"
    using data by (simp add: frames_written_def CD_FRAMESIZE_RAW_def)
next
  fix i
  assume "k * CD_FRAMESIZE_RAW \<le> i"
  then show "frames_written os l2m (m_device s) sector log buffer k i = buffer i"
    by (simp add: frames_written_def)
qed

theorem ReadSectors2352_fail_fast_witness:
  "fst (ReadSectors2352 cd_raw msf_of_lba (session0, []) 16 3 (\<lambda>i. 0)) = False
   \<and> snd (snd (ReadSectors2352 cd_raw msf_of_lba (session0, []) 16 3 (\<lambda>i. 0)))
       = [IOCTL_CDROMREADRAW 3 0 2 16, IOCTL_CDROMREADRAW 3 0 2 17, IOCTL_CDROMREADRAW 3 0 2 18]
   \<and> fst (snd (ReadSectors2352 cd_raw msf_of_lba (session0, []) 16 3 (\<lambda>i. 0))) 2357 = 0x11
   \<and> fst (snd (ReadSectors2352 cd_raw msf_of_lba (session0, []) 16 3 (\<lambda>i. 0))) 4704 = 0"
proof -
  have r0: "raw_reply cd_raw msf_of_lba (m_device session0) 16 [] 0 = Some (\<lambda>i. 0x11)"
    and r1: "raw_reply cd_raw msf_of_lba (m_device session0) 16 [] 1 = Some (\<lambda>i. 0x11)"
    and r2: "raw_reply cd_raw msf_of_lba (m_device session0) 16 [] 2 = None"
    by (simp_all add: raw_reply_def cd_raw_def no_device_def msf_of_lba_def)
  have h1: "(2::nat) \<le> unat (3 :: u32)"
    by simp
  have h2: "\<forall>j<2. raw_reply cd_raw msf_of_lba (m_device session0) 16 [] j \<noteq> None"
    using r0 r1 by (simp add: less_Suc_eq numeral_2_eq_2)
  have h3: "2 < unat (3 :: u32) \<longrightarrow> raw_reply cd_raw msf_of_lba (m_device session0) 16 [] 2 = None"
    using r2 by simp
  have res: "ReadSectors2352 cd_raw msf_of_lba (session0, []) 16 3 (\<lambda>i. 0)
               = (False, frames_written cd_raw msf_of_lba (m_device session0) 16 [] (\<lambda>i. 0) 2,
                  raw_log msf_of_lba (m_device session0) 16 [] 3)"
    using ReadSectors2352_fail_fast [OF h1 h2 h3, of "\<lambda>i. 0"] by simp
  have lg: "raw_log msf_of_lba (m_device session0) 16 [] 3
              = [IOCTL_CDROMREADRAW 3 0 2 16, IOCTL_CDROMREADRAW 3 0 2 17,
                 IOCTL_CDROMREADRAW 3 0 2 18]"
    by (simp add: raw_log_def raw_event_def msf_of_lba_def session0_def numeral_3_eq_3)
  have f1: "frames_written cd_raw msf_of_lba (m_device session0) 16 [] (\<lambda>i. 0) 2 2357 = 0x11"
    using r1 by (simp add: frames_written_def CD_FRAMESIZE_RAW_def)
  have f2: "frames_written cd_raw msf_of_lba (m_device session0) 16 [] (\<lambda>i. 0) 2 4704 = 0"
    by (simp add: frames_written_def CD_FRAMESIZE_RAW_def)
  show ?thesis
    by (simp add: res lg f1 f2)
qed

end
